theory Spec2Isabelle
  imports Complex_Main "HOL-Library.Log_Nat" "HOL-Library.Sublist"
begin

section \<open>Python floats: IEEE 754 binary64 with round-to-nearest-even\<close>

text \<open>
  The components of a \<open>Vector2\<close> are Python floats, that is C doubles. A double is a NaN,
  a signed infinity, or a signed finite number \<open>mantissa * 2 ^ exponent\<close>; the sign is kept
  apart from the magnitude so that \<open>-0.0\<close> is a value of its own. Every arithmetic
  operation computes the exact rational result and rounds it once (\<open>round_mag\<close>).
\<close>

datatype float64 =
    NaN
  | Infinity bool
  | Fin bool nat int

text \<open>The magnitude \<open>m * 2 ^ e\<close> of a finite double, as an exact rational.\<close>

definition mag :: "nat \<Rightarrow> int \<Rightarrow> rat" where
  "mag m e = of_nat m * (2 powi e)"

text \<open>\<open>floor_log2 q\<close> is the integer \<open>e\<close> with \<open>2 ^ e \<le> q < 2 ^ (e + 1)\<close>, for \<open>q > 0\<close>.\<close>

definition floor_log2 :: "rat \<Rightarrow> int" where
  "floor_log2 q =
     (let (a, b) = quotient_of q;
          est = bitlen a - bitlen b
      in if 2 powi est \<le> q then est else est - 1)"

text \<open>Rounding a non-negative rational to the nearest integer, ties to the even one.\<close>

definition round_half_even :: "rat \<Rightarrow> nat" where
  "round_half_even n =
     (let f = \<lfloor>n\<rfloor>; r = n - of_int f
      in nat (if r < 1 / 2 then f
              else if 1 / 2 < r then f + 1
              else if even f then f else f + 1))"

text \<open>
  The quantum of the binade of \<open>q\<close>: 53 significant bits, and never below the subnormal
  quantum \<open>2 ^ -1074\<close>.
\<close>

definition quantum_exp :: "int \<Rightarrow> int" where
  "quantum_exp e = max (e - 52) (- 1074)"

text \<open>
  Round a non-negative exact magnitude to a double of sign \<open>s\<close>. A value that rounds to
  \<open>2 ^ 1024\<close> or more overflows to the infinity of that sign.
\<close>

definition round_mag :: "bool \<Rightarrow> rat \<Rightarrow> float64" where
  "round_mag s q =
     (if q = 0 then Fin s 0 0
      else let p = quantum_exp (floor_log2 q);
               k = round_half_even (q / (2 powi p))
           in if 2 ^ 1024 \<le> mag k p then Infinity s else Fin s k p)"

definition is_nan :: "float64 \<Rightarrow> bool" where
  "is_nan a = (case a of NaN \<Rightarrow> True | _ \<Rightarrow> False)"

text \<open>The signed exact value of a finite double.\<close>

definition fval :: "bool \<Rightarrow> nat \<Rightarrow> int \<Rightarrow> rat" where
  "fval s m e = (if s then - mag m e else mag m e)"

text \<open>
  Comparison \<open>==\<close> of two floats: a NaN equals nothing, itself included, and \<open>-0.0 == 0.0\<close>.
\<close>

fun feq :: "float64 \<Rightarrow> float64 \<Rightarrow> bool" where
  "feq NaN _ = False"
| "feq _ NaN = False"
| "feq (Infinity s) (Infinity t) = (s = t)"
| "feq (Infinity _) (Fin _ _ _) = False"
| "feq (Fin _ _ _) (Infinity _) = False"
| "feq (Fin s m e) (Fin t n f) = (fval s m e = fval t n f)"


text \<open>The float \<open>0.0\<close>, which is also what the int literal \<open>0\<close> converts to in \<open>x == 0\<close>.\<close>

definition fzero :: float64 where
  "fzero = Fin False 0 0"

fun fneg :: "float64 \<Rightarrow> float64" where
  "fneg NaN = NaN"
| "fneg (Infinity s) = Infinity (\<not> s)"
| "fneg (Fin s m e) = Fin (\<not> s) m e"

fun fmul :: "float64 \<Rightarrow> float64 \<Rightarrow> float64" where
  "fmul NaN _ = NaN"
| "fmul _ NaN = NaN"
| "fmul (Infinity s) (Infinity t) = Infinity (s \<noteq> t)"
| "fmul (Infinity s) (Fin t n f) = (if mag n f = 0 then NaN else Infinity (s \<noteq> t))"
| "fmul (Fin s m e) (Infinity t) = (if mag m e = 0 then NaN else Infinity (s \<noteq> t))"
| "fmul (Fin s m e) (Fin t n f) = round_mag (s \<noteq> t) (mag m e * mag n f)"

fun fadd :: "float64 \<Rightarrow> float64 \<Rightarrow> float64" where
  "fadd NaN _ = NaN"
| "fadd _ NaN = NaN"
| "fadd (Infinity s) (Infinity t) = (if s = t then Infinity s else NaN)"
| "fadd (Infinity s) (Fin _ _ _) = Infinity s"
| "fadd (Fin _ _ _) (Infinity t) = Infinity t"
| "fadd (Fin s m e) (Fin t n f) =
     (let q = fval s m e + fval t n f
      in if q = 0 then Fin (s \<and> t) 0 0 else round_mag (q < 0) \<bar>q\<bar>)"

definition fsub :: "float64 \<Rightarrow> float64 \<Rightarrow> float64" where
  "fsub a b = fadd a (fneg b)"

text \<open>
  IEEE division, as the C expression \<open>a / b\<close> computes it: a zero divisor gives an
  infinity, or a NaN for \<open>0 / 0\<close>.
\<close>

fun fdiv :: "float64 \<Rightarrow> float64 \<Rightarrow> float64" where
  "fdiv NaN _ = NaN"
| "fdiv _ NaN = NaN"
| "fdiv (Infinity s) (Infinity t) = NaN"
| "fdiv (Infinity s) (Fin t _ _) = Infinity (s \<noteq> t)"
| "fdiv (Fin s _ _) (Infinity t) = Fin (s \<noteq> t) 0 0"
| "fdiv (Fin s m e) (Fin t n f) =
     (if mag n f = 0 then (if mag m e = 0 then NaN else Infinity (s \<noteq> t))
      else round_mag (s \<noteq> t) (mag m e / mag n f))"

text \<open>The integer square root, two bits at a time.\<close>

function isqrt :: "int \<Rightarrow> int" where
  "isqrt n =
     (if n \<le> 0 then 0
      else let r = 2 * isqrt (n div 4)
           in if (r + 1) * (r + 1) \<le> n then r + 1 else r)"
  by pat_completeness auto
termination
  by (relation "measure nat") auto

declare isqrt.simps [simp del]

text \<open>
  The square root of a positive exact magnitude, rounded to nearest: the root of a double
  has 53 significant bits and is never subnormal, so its quantum is \<open>2 ^ (e div 2 - 52)\<close>
  for \<open>e = floor_log2 q\<close>. With \<open>t = q / 4 ^ p\<close> and \<open>k = \<lfloor>sqrt t\<rfloor>\<close>, the root rounds up
  exactly when \<open>t\<close> is beyond \<open>(k + 1/2)\<^sup>2\<close>.
\<close>

definition sqrt_mag :: "rat \<Rightarrow> float64" where
  "sqrt_mag q =
     (let p = floor_log2 q div 2 - 52;
          t = q / (4 powi p);
          k = isqrt \<lfloor>t\<rfloor>;
          mid = of_int (k * k + k) + 1 / 4
      in Fin False (nat (if t < mid then k
                         else if mid < t then k + 1
                         else if even k then k else k + 1)) p)"

section \<open>Python values and exceptions\<close>

text \<open>
  The exceptions the class can raise, by class, with the message where the source or the
  \<open>math\<close> module gives one. \<open>ZeroDivisionError\<close> is raised by the interpreter's float
  division.
\<close>

datatype exn =
    ValueError string
  | TypeError string
  | IndexError string
  | ZeroDivisionError

text \<open>
  The specification names three error kinds. They are read off the exception class:
  \<open>ValueError\<close> is \<open>InvalidOperation\<close>, \<open>TypeError\<close> is \<open>TypeMismatch\<close>, \<open>IndexError\<close> is
  \<open>IndexOutOfRange\<close>; \<open>ZeroDivisionError\<close> is none of the three.
\<close>

datatype error_kind = InvalidOperation | TypeMismatch | IndexOutOfRange

fun kind_of :: "exn \<Rightarrow> error_kind option" where
  "kind_of (ValueError _) = Some InvalidOperation"
| "kind_of (TypeError _) = Some TypeMismatch"
| "kind_of (IndexError _) = Some IndexOutOfRange"
| "kind_of ZeroDivisionError = None"

text \<open>Sequencing of computations that may raise: the first exception is the result.\<close>

definition and_then :: "exn + 'a \<Rightarrow> ('a \<Rightarrow> exn + 'b) \<Rightarrow> exn + 'b" where
  "and_then r f = (case r of Inl e \<Rightarrow> Inl e | Inr a \<Rightarrow> f a)"

text \<open>
  Python's \<open>a / b\<close> on floats raises on a zero divisor (\<open>0.0\<close> or \<open>-0.0\<close>) before it
  divides; otherwise it is the IEEE quotient.
\<close>

definition py_div :: "float64 \<Rightarrow> float64 \<Rightarrow> exn + float64" where
  "py_div a b = (if feq b fzero then Inl ZeroDivisionError else Inr (fdiv a b))"

text \<open>
  \<open>math.sqrt\<close>: a NaN and \<open>+inf\<close> are returned as they are, as are both zeros; a negative
  argument is a domain error.
\<close>

fun py_sqrt :: "float64 \<Rightarrow> exn + float64" where
  "py_sqrt NaN = Inr NaN"
| "py_sqrt (Infinity s) =
     (if s then Inl (ValueError ''math domain error'') else Inr (Infinity False))"
| "py_sqrt (Fin s m e) =
     (if mag m e = 0 then Inr (Fin s m e)
      else if s then Inl (ValueError ''math domain error'')
      else Inr (sqrt_mag (mag m e)))"

text \<open>
  An operand of type \<open>object\<close>: a float, an int, a bool, \<open>None\<close>, a str, a \<open>Vector2\<close>
  (of representation \<open>'v\<close>: a value, or a reference into a store), or an instance of some
  other class, given by the class name. Subclasses of \<open>float\<close> and of \<open>Vector2\<close> are left out.
\<close>

datatype 'v pyval =
    PyFloat float64
  | PyInt int
  | PyBool bool
  | PyNone
  | PyStr string
  | PyVec 'v
  | PyObj string

text \<open>The text of \<open>type(other)\<close> inside an f-string, as \<open><class 'int'>\<close>.\<close>

definition class_repr :: "string \<Rightarrow> string" where
  "class_repr name = ''<class '' @ [CHR 0x27] @ name @ [CHR 0x27] @ ''>''"

fun type_repr :: "'v pyval \<Rightarrow> string" where
  "type_repr (PyFloat _) = class_repr ''float''"
| "type_repr (PyInt _) = class_repr ''int''"
| "type_repr (PyBool _) = class_repr ''bool''"
| "type_repr PyNone = class_repr ''NoneType''"
| "type_repr (PyStr _) = class_repr ''str''"
| "type_repr (PyVec _) = class_repr ''snippets.vector2.Vector2''"
| "type_repr (PyObj name) = class_repr name"

text \<open>A type name between double quotes, as the messages have it.\<close>

definition quoted :: "string \<Rightarrow> string" where
  "quoted s = [CHR 0x22] @ s @ [CHR 0x22]"




section \<open>The class \<open>Vector2\<close>\<close>

text \<open>
  The two slots \<open>__x\<close> and \<open>__y\<close>, annotated \<open>float\<close>. \<open>__init__\<close> stores its arguments as
  they are.
\<close>

record vector2 =
  priv_x :: float64
  priv_y :: float64

definition Vector2 :: "float64 \<Rightarrow> float64 \<Rightarrow> vector2" where
  "Vector2 x y = \<lparr>priv_x = x, priv_y = y\<rparr>"

definition prop_x :: "vector2 \<Rightarrow> float64" where
  "prop_x self = priv_x self"

definition prop_y :: "vector2 \<Rightarrow> float64" where
  "prop_y self = priv_y self"

definition is_zero :: "vector2 \<Rightarrow> bool" where
  "is_zero self = (feq (priv_x self) fzero \<and> feq (priv_y self) fzero)"


definition magnitude :: "vector2 \<Rightarrow> exn + float64" where
  "magnitude self =
     py_sqrt (fadd (fmul (priv_x self) (priv_x self)) (fmul (priv_y self) (priv_y self)))"

definition truediv :: "vector2 \<Rightarrow> vector2 pyval \<Rightarrow> exn + vector2" where
  "truediv self other =
     (case other of
        PyFloat d \<Rightarrow>
          and_then (py_div (priv_x self) d) (\<lambda>a.
          and_then (py_div (priv_y self) d) (\<lambda>b.
          Inr (Vector2 a b)))
      | _ \<Rightarrow>
          Inl (TypeError (''Vector2 cannot be divided by type '' @
                          quoted (type_repr other) @ ''.'')))"


definition dot :: "vector2 \<Rightarrow> vector2 \<Rightarrow> float64" where
  "dot self other =
     fadd (fmul (priv_x self) (prop_x other)) (fmul (priv_y self) (prop_y other))"



definition eq :: "vector2 \<Rightarrow> vector2 pyval \<Rightarrow> exn + bool" where
  "eq self other =
     (case other of
        PyVec v \<Rightarrow> Inr (feq (priv_x self) (prop_x v) \<and> feq (priv_y self) (prop_y v))
      | _ \<Rightarrow>
          Inl (TypeError (''Vector2 cannot be compared to type '' @
                          quoted (type_repr other) @ ''.'')))"

definition bool :: "vector2 \<Rightarrow> bool" where
  "bool self = is_zero self"



definition add :: "vector2 \<Rightarrow> vector2 pyval \<Rightarrow> exn + vector2" where
  "add self other =
     (case other of
        PyVec v \<Rightarrow>
          Inr (Vector2 (fadd (priv_x self) (prop_x v)) (fadd (priv_y self) (prop_y v)))
      | _ \<Rightarrow>
          Inl (TypeError (''Type '' @ quoted (type_repr other) @
                          '' cannot be added to Vector2.'')))"

definition sub :: "vector2 \<Rightarrow> vector2 pyval \<Rightarrow> exn + vector2" where
  "sub self other =
     (case other of
        PyVec v \<Rightarrow>
          Inr (Vector2 (fsub (priv_x self) (prop_x v)) (fsub (priv_y self) (prop_y v)))
      | _ \<Rightarrow>
          Inl (TypeError (''Type '' @ quoted (type_repr other) @
                          '' cannot be subtracted from Vector2.'')))"

definition mul :: "vector2 \<Rightarrow> vector2 pyval \<Rightarrow> exn + vector2" where
  "mul self other =
     (case other of
        PyFloat c \<Rightarrow> Inr (Vector2 (fmul (priv_x self) c) (fmul (priv_y self) c))
      | PyVec _ \<Rightarrow>
          Inl (TypeError
                 ''Vector products should be calculated with the Vector2.dot() method.'')
      | _ \<Rightarrow>
          Inl (TypeError (''Vector2 cannot be multiplied by type '' @
                          quoted (type_repr other) @ ''.'')))"



definition distance :: "vector2 \<Rightarrow> vector2 \<Rightarrow> exn + float64" where
  "distance self other = and_then (sub other (PyVec self)) magnitude"










section \<open>Objects in a store\<close>
















section \<open>Facts about the float operations\<close>

text \<open>\<open>floor_log2\<close> finds the binade of a positive rational, and only that one.\<close>

lemma bitlen_rat_bounds:
  assumes "0 < a"
  shows "2 powi (bitlen a - 1) \<le> (of_int a :: rat)" and "(of_int a :: rat) < 2 powi (bitlen a)"
proof -
  have pos: "1 \<le> bitlen a" using assms bitlen_eq_zero_iff [of a] bitlen_nonneg [of a] by linarith
  from bitlen_bounds [OF assms]
  have l: "2 ^ nat (bitlen a - 1) \<le> a" and u: "a < 2 ^ nat (bitlen a)" by auto
  have "(of_int (2 ^ nat (bitlen a - 1)) :: rat) \<le> of_int a" using l by (simp only: of_int_le_iff)
  then show "2 powi (bitlen a - 1) \<le> (of_int a :: rat)"
    using pos by (simp add: power_int_def)
  have "(of_int a :: rat) < of_int (2 ^ nat (bitlen a))" using u by (simp only: of_int_less_iff)
  then show "(of_int a :: rat) < 2 powi (bitlen a)"
    using pos by (simp add: power_int_def)
qed

lemma floor_log2_bounds:
  assumes "0 < q"
  shows "2 powi (floor_log2 q) \<le> q" and "q < 2 powi (floor_log2 q + 1)"
proof -
  obtain a b where ab: "quotient_of q = (a, b)" by (cases "quotient_of q")
  have b: "0 < b" using ab quotient_of_denom_pos by blast
  have q: "q = of_int a / of_int b" using ab quotient_of_div by blast
  have a: "0 < a" using assms b q by (simp add: zero_less_divide_iff)
  define est where "est = bitlen a - bitlen b"
  note la = bitlen_rat_bounds [OF a] and lb = bitlen_rat_bounds [OF b]
  have bpos: "(0::rat) < of_int b" using b by simp
  have "q * of_int b = of_int a" using q bpos by simp
  have up: "q < 2 powi (est + 1)"
  proof -
    have "of_int a < (2::rat) powi (bitlen a)" by (rule la)
    also have "\<dots> = 2 powi (est + 1) * 2 powi (bitlen b - 1)"
      by (simp add: est_def flip: power_int_add)
    also have "\<dots> \<le> 2 powi (est + 1) * of_int b"
      using lb(1) by (simp add: mult_left_mono)
    finally show ?thesis using bpos by (simp add: q pos_divide_less_eq)
  qed
  have lo: "2 powi (est - 1) < q"
  proof -
    have "2 powi (est - 1) * of_int b < (2::rat) powi (est - 1) * 2 powi (bitlen b)"
      using lb(2) by (simp add: mult_strict_left_mono)
    also have "\<dots> = 2 powi (bitlen a - 1)"
      by (simp add: est_def flip: power_int_add)
    also have "\<dots> \<le> of_int a" by (rule la)
    finally show ?thesis using bpos by (simp add: q pos_less_divide_eq)
  qed
  have fl: "floor_log2 q = (if 2 powi est \<le> q then est else est - 1)"
    by (simp add: floor_log2_def ab est_def Let_def)
  show "2 powi (floor_log2 q) \<le> q" using lo by (simp add: fl)
  show "q < 2 powi (floor_log2 q + 1)" using up by (simp add: fl)
qed

lemma floor_log2_unique:
  assumes "2 powi e \<le> q" and "q < 2 powi (e + 1)"
  shows "floor_log2 q = e"
proof -
  have q: "0 < q" using assms(1) by (meson less_le_trans zero_less_numeral zero_less_power_int)
  note b = floor_log2_bounds [OF q]
  have "(2::rat) powi e < 2 powi (floor_log2 q + 1)" using assms(1) b(2) by simp
  then have 1: "e < floor_log2 q + 1"
    by (smt (verit) power_int_increasing [of _ _ "2::rat"] not_less one_le_numeral)
  have "(2::rat) powi (floor_log2 q) < 2 powi (e + 1)" using assms(2) b(1) by simp
  then have 2: "floor_log2 q < e + 1"
    by (smt (verit) power_int_increasing [of _ _ "2::rat"] not_less one_le_numeral)
  from 1 2 show ?thesis by simp
qed

text \<open>\<open>isqrt\<close> is the floor of the square root.\<close>

lemma isqrt_bounds:
  "0 \<le> n \<Longrightarrow> 0 \<le> isqrt n \<and> isqrt n * isqrt n \<le> n \<and> n < (isqrt n + 1) * (isqrt n + 1)"
proof (induction n rule: isqrt.induct)
  case (1 n)
  show ?case
  proof (cases "n \<le> 0")
    case True
    with 1(2) have "n = 0" by simp
    then show ?thesis by (simp add: isqrt.simps)
  next
    case False
    define s where "s = isqrt (n div 4)"
    have ih: "0 \<le> s \<and> s * s \<le> n div 4 \<and> n div 4 < (s + 1) * (s + 1)"
      unfolding s_def using 1(1) [OF False] 1(2) by simp
    have lo: "(2 * s) * (2 * s) \<le> n" using ih by (simp add: algebra_simps) linarith
    have "n div 4 + 1 \<le> (s + 1) * (s + 1)" using ih by linarith
    then have hi: "n < (2 * s + 2) * (2 * s + 2)" by (simp add: algebra_simps)
    have eq: "isqrt n = (if (2 * s + 1) * (2 * s + 1) \<le> n then 2 * s + 1 else 2 * s)"
      using False by (subst isqrt.simps) (simp add: s_def Let_def)
    show ?thesis
      using ih lo hi by (auto simp: eq algebra_simps)
  qed
qed

lemma isqrt_unique:
  assumes "0 \<le> k" and "k * k \<le> n" and "n < (k + 1) * (k + 1)"
  shows "isqrt n = k"
proof -
  have n: "0 \<le> n" using assms(1,2) by (meson mult_nonneg_nonneg order_trans)
  note b = isqrt_bounds [OF n]
  have "k * k < (isqrt n + 1) * (isqrt n + 1)" using assms(2) b by linarith
  then have 1: "k < isqrt n + 1" using b
    by (smt (verit) mult_mono)
  have "isqrt n * isqrt n < (k + 1) * (k + 1)" using assms(3) b by linarith
  then have 2: "isqrt n < k + 1" using assms(1)
    by (smt (verit) mult_mono)
  from 1 2 show ?thesis by simp
qed

text \<open>Rounding, once the binade is known.\<close>

lemma round_mag_eval:
  assumes "2 powi e \<le> q" and "q < 2 powi (e + 1)"
  shows "round_mag s q =
     (let p = quantum_exp e; k = round_half_even (q / (2 powi p))
      in if 2 ^ 1024 \<le> mag k p then Infinity s else Fin s k p)"
proof -
  have "0 < q" using assms(1) by (meson less_le_trans zero_less_numeral zero_less_power_int)
  then show ?thesis
    by (simp add: round_mag_def floor_log2_unique [OF assms])
qed


































text \<open>Evaluating a square root once the binade and the integer root are known.\<close>

lemma sqrt_mag_eval:
  assumes "2 powi e \<le> q" and "q < 2 powi (e + 1)"
    and "0 \<le> k" and "k * k \<le> \<lfloor>q / (4 powi (e div 2 - 52))\<rfloor>"
    and "\<lfloor>q / (4 powi (e div 2 - 52))\<rfloor> < (k + 1) * (k + 1)"
  shows "sqrt_mag q =
     (let p = e div 2 - 52; t = q / (4 powi p); mid = of_int (k * k + k) + 1 / 4
      in Fin False (nat (if t < mid then k
                         else if mid < t then k + 1
                         else if even k then k else k + 1)) p)"
  unfolding sqrt_mag_def Let_def floor_log2_unique [OF assms(1,2)] isqrt_unique [OF assms(3,4,5)]
  by (rule refl)

lemma round_mag_9: "round_mag False 9 = Fin False 5066549580791808 (- 49)"
  by (subst round_mag_eval [where e = 3])
     (simp_all add: quantum_exp_def round_half_even_def mag_def Let_def)

lemma round_mag_16: "round_mag False 16 = Fin False 4503599627370496 (- 48)"
  by (subst round_mag_eval [where e = 4])
     (simp_all add: quantum_exp_def round_half_even_def mag_def Let_def)

lemma round_mag_25: "round_mag False 25 = Fin False 7036874417766400 (- 48)"
  by (subst round_mag_eval [where e = 4])
     (simp_all add: quantum_exp_def round_half_even_def mag_def Let_def)

lemma sqrt_mag_25: "sqrt_mag 25 = Fin False 5629499534213120 (- 50)"
  by (subst sqrt_mag_eval [where e = 4 and k = 5629499534213120])
     (simp_all add: Let_def)


section \<open>Facts about the operations of the class\<close>

lemma Vector2_sel [simp]: "priv_x (Vector2 a b) = a" "priv_y (Vector2 a b) = b"
  by (simp_all add: Vector2_def)




text \<open>The triangle of sides 3, 4 and 5: the magnitude is \<open>5.0\<close> exactly.\<close>

lemma magnitude_3_4:
  "magnitude (Vector2 (Fin False 3 0) (Fin True 4 0)) = Inr (Fin False 5629499534213120 (- 50))"
proof -
  have m: "mag 3 0 = 3" "mag 4 0 = 4" "mag 5066549580791808 (- 49) = 9"
    "mag 4503599627370496 (- 48) = 16" "mag 7036874417766400 (- 48) = 25"
    by (simp_all add: mag_def)
  have a: "fmul (Fin False 3 0) (Fin False 3 0) = Fin False 5066549580791808 (- 49)"
    by (simp add: m round_mag_9)
  have b: "fmul (Fin True 4 0) (Fin True 4 0) = Fin False 4503599627370496 (- 48)"
    by (simp add: m round_mag_16)
  have c: "fadd (Fin False 5066549580791808 (- 49)) (Fin False 4503599627370496 (- 48))
             = Fin False 7036874417766400 (- 48)"
    by (simp add: fval_def m round_mag_25)
  show ?thesis
    by (simp add: magnitude_def a b c m sqrt_mag_25 del: fmul.simps fadd.simps)
qed







section \<open>Normalisation\<close>




section \<open>Division by a scalar\<close>



section \<open>Multiplication\<close>




section \<open>Equality\<close>

text \<open>
  C4. Two vectors are equal exactly when \<open>a.x == b.x\<close> and \<open>a.y == b.y\<close> as floats, so a
  vector with a NaN component differs from itself; comparing with anything that is not a
  \<open>Vector2\<close> fails with \<open>TypeMismatch\<close>.
\<close>

theorem eq_structural:
  "eq a (PyVec b) = Inr (feq (prop_x a) (prop_x b) \<and> feq (prop_y a) (prop_y b)) \<and>
   (is_nan (prop_x a) \<or> is_nan (prop_y a) \<longrightarrow> eq a (PyVec a) = Inr False) \<and>
   ((\<forall>v. other \<noteq> PyVec v) \<longrightarrow>
      (\<exists>e. eq a other = Inl e \<and> kind_of e = Some TypeMismatch))"
  by (cases other) (auto simp: eq_def prop_x_def prop_y_def is_nan_def split: float64.splits)

theorem eq_structural_witness:
  "eq (Vector2 NaN (Fin False 1 0)) (PyVec (Vector2 NaN (Fin False 1 0))) = Inr False \<and>
   (\<exists>e. eq (Vector2 NaN (Fin False 1 0)) (PyInt 5) = Inl e \<and> kind_of e = Some TypeMismatch)"
  using eq_structural [of "Vector2 NaN (Fin False 1 0)" _ "PyInt 5"]
  by (simp add: Vector2_def prop_x_def is_nan_def)

section \<open>Indexing\<close>



section \<open>Doubling\<close>



section \<open>The sign of the magnitude\<close>




section \<open>Operands are left as they are\<close>



section \<open>Truth value\<close>

text \<open>
  C9. \<open>bool(v)\<close> is \<open>v.is_zero()\<close>: true exactly when both components equal \<open>0.0\<close>, so the
  zero vector is the one that is true.
\<close>

theorem bool_is_zero:
  "bool self = is_zero self \<and>
   bool self = (feq (prop_x self) fzero \<and> feq (prop_y self) fzero) \<and>
   bool (Vector2 fzero fzero) \<and>
   \<not> bool (Vector2 (Fin False 1 0) fzero)"
  by (simp add: bool_def is_zero_def prop_x_def prop_y_def Vector2_def fzero_def fval_def
        mag_def)

section \<open>Integer scalars\<close>

text \<open>
  C10. For an int \<open>n\<close>, both \<open>v * n\<close> and \<open>v / n\<close> fail with \<open>TypeMismatch\<close>, although
  \<open>v * 2.0\<close> succeeds.
\<close>

theorem int_scalar_rejected:
  "(\<exists>e. mul self (PyInt n) = Inl e \<and> kind_of e = Some TypeMismatch) \<and>
   (\<exists>e. truediv self (PyInt n) = Inl e \<and> kind_of e = Some TypeMismatch) \<and>
   (\<exists>v. mul self (PyFloat (Fin False 2 0)) = Inr v)"
  by (simp add: mul_def truediv_def)

end
